theory Spec2Isabelle
  imports Main "HOL-Library.Word"
begin

section \<open>Data model of the trivia front end\<close>

text \<open>
  The development follows \<^verbatim>\<open>src/trivia_frontend/src/App.js\<close> and
  \<^verbatim>\<open>src/trivia_frontend/src/api/client.js\<close>. JavaScript strings are modelled as
  \<^typ>\<open>string\<close>, one \<^typ>\<open>char\<close> per code unit below 256; the integers the
  interface counts with (indices, scores, question numbers) are \<^typ>\<open>int\<close>.
  A value that is \<^verbatim>\<open>undefined\<close> or \<^verbatim>\<open>null\<close> is \<open>None\<close>.
\<close>

subsection \<open>The mock question list\<close>

record mock_question =
  mq_id :: string
  mq_prompt :: string
  mq_choices :: "string list"
  mq_correctIndex :: int
  mq_explanation :: string

definition mock_q1 :: mock_question where
  "mock_q1 =
     \<lparr> mq_id = ''q1'',
       mq_prompt = ''In classic arcade cabinets, what does CRT stand for?'',
       mq_choices = [''Cathode-Ray Tube'', ''Core Runtime'', ''Color Render Technique'',
                     ''Circuit Relay Trigger''],
       mq_correctIndex = 0,
       mq_explanation = ''CRT stands for Cathode-Ray Tube, used in older displays.'' \<rparr>"

definition mock_q2 :: mock_question where
  "mock_q2 =
     \<lparr> mq_id = ''q2'',
       mq_prompt = ''Which color is often associated with '' @ [CHR 0x27] @ ''neon''
                   @ [CHR 0x27] @ '' cyberpunk accents?'',
       mq_choices = [''Beige'', ''Neon Cyan'', ''Olive'', ''Brown''],
       mq_correctIndex = 1,
       mq_explanation = ''Neon cyan (and magenta) are iconic cyberpunk palette accents.'' \<rparr>"

definition mock_q3 :: mock_question where
  "mock_q3 =
     \<lparr> mq_id = ''q3'',
       mq_prompt = ''What input did many early arcade games rely on most?'',
       mq_choices = [''Touchscreen'', ''Mouse'', ''Joystick + buttons'', ''Voice commands''],
       mq_correctIndex = 2,
       mq_explanation = ''Joystick + buttons were the standard controls in arcades.'' \<rparr>"

definition MOCK_QUESTIONS :: "mock_question list" where
  "MOCK_QUESTIONS = [mock_q1, mock_q2, mock_q3]"

text \<open>\<^verbatim>\<open>clamp(n, min, max) = Math.max(min, Math.min(max, n))\<close>\<close>

definition clamp :: "int \<Rightarrow> int \<Rightarrow> int \<Rightarrow> int" where
  "clamp n lo hi = max lo (min hi n)"

subsection \<open>Errors and responses\<close>

text \<open>
  A thrown value as the controller reads it: \<^verbatim>\<open>e?.status\<close> and
  \<^verbatim>\<open>e?.message\<close>. An error of the fetch layer or a \<^verbatim>\<open>TypeError\<close>
  has no status; a message that is absent reads as the empty string.
\<close>

record js_error =
  err_status :: "int option"
  err_message :: string

type_synonym 'a outcome = "js_error + 'a"

text \<open>
  The question object of \<^verbatim>\<open>GET /game/question\<close>, with every spelling the
  controller accepts as an optional field (types as in the \<^verbatim>\<open>TriviaQuestion\<close>
  typedef of the API module).
\<close>

record question_response =
  qr_id :: "string option"
  qr_question_id :: "string option"
  qr_questionId :: "string option"
  qr_prompt :: "string option"
  qr_question :: "string option"
  qr_text :: "string option"
  qr_choices :: "string list option"
  qr_options :: "string list option"
  qr_total_questions :: "int option"
  qr_totalQuestions :: "int option"
  qr_question_number :: "int option"
  qr_questionNumber :: "int option"

text \<open>
  The result object of \<^verbatim>\<open>POST /game/answer\<close> (the \<^verbatim>\<open>AnswerResult\<close>
  typedef), again with every accepted spelling.
\<close>

record answer_response =
  r_correct :: "bool option"
  r_is_correct :: "bool option"
  r_correctIndex :: "int option"
  r_correct_index :: "int option"
  r_explanation :: "string option"
  r_score :: "int option"
  r_questionNumber :: "int option"
  r_question_number :: "int option"
  r_totalQuestions :: "int option"
  r_total_questions :: "int option"
  r_gameOver :: "bool option"
  r_game_over :: "bool option"

subsection \<open>Controller state\<close>

record shown_question =
  q_id :: string
  q_prompt :: string
  q_choices :: "string list"

record answer_result =
  ar_correct :: bool
  ar_correctIndex :: int
  ar_explanation :: string
  ar_score :: int
  ar_questionNumber :: int
  ar_totalQuestions :: int
  ar_gameOver :: bool

record state =
  gameStarted :: bool
  question :: "shown_question option"
  selectedIndex :: "int option"
  answerResult :: "answer_result option"
  score :: int
  questionNumber :: int
  totalQuestions :: int
  gameOver :: bool
  loading :: bool
  error :: string
  usingMockBackend :: bool

section \<open>Mock data provider\<close>

text \<open>
  Reading a property of \<^verbatim>\<open>undefined\<close> throws a \<^verbatim>\<open>TypeError\<close>;
  the message is the one V8 gives.
\<close>

definition undefined_read :: "string \<Rightarrow> js_error" where
  "undefined_read prop =
     \<lparr> err_status = None,
       err_message = ''Cannot read properties of undefined (reading '' @ [CHR 0x27] @ prop
                     @ [CHR 0x27] @ '')'' \<rparr>"

text \<open>
  \<^verbatim>\<open>mockGetQuestion(currentNumber)\<close>: \<^verbatim>\<open>currentNumber || 1\<close> replaces 0 by 1;
  \<^verbatim>\<open>MOCK_QUESTIONS[idx]\<close> outside the list is \<^verbatim>\<open>undefined\<close>, and the
  read of its \<^verbatim>\<open>id\<close> throws.
\<close>

definition mockGetQuestion :: "int \<Rightarrow> question_response outcome" where
  "mockGetQuestion currentNumber =
     (let idx = clamp ((if currentNumber = 0 then 1 else currentNumber) - 1) 0
                  (int (length MOCK_QUESTIONS) - 1)
      in if 0 \<le> idx \<and> idx < int (length MOCK_QUESTIONS)
         then (let q = MOCK_QUESTIONS ! nat idx
               in Inr \<lparr> qr_id = Some (mq_id q), qr_question_id = None, qr_questionId = None,
                        qr_prompt = Some (mq_prompt q), qr_question = None, qr_text = None,
                        qr_choices = Some (mq_choices q), qr_options = None,
                        qr_total_questions = Some (int (length MOCK_QUESTIONS)),
                        qr_totalQuestions = None,
                        qr_question_number = Some (idx + 1),
                        qr_questionNumber = None \<rparr>)
         else Inl (undefined_read ''id''))"

text \<open>
  \<^verbatim>\<open>MOCK_QUESTIONS.find((x) => x.id === questionId) || MOCK_QUESTIONS[0]\<close>
\<close>

definition find_question :: "string \<Rightarrow> mock_question" where
  "find_question questionId =
     (case find (\<lambda>x. mq_id x = questionId) MOCK_QUESTIONS of
        Some q \<Rightarrow> q
      | None \<Rightarrow> MOCK_QUESTIONS ! 0)"

text \<open>
  \<^verbatim>\<open>mockSubmitAnswer(questionId, selectedIdx)\<close> reads \<^verbatim>\<open>score\<close> and
  \<^verbatim>\<open>questionNumber\<close> of the render it was created in: the state \<open>s\<close>.
\<close>

definition mockSubmitAnswer :: "state \<Rightarrow> string \<Rightarrow> int \<Rightarrow> answer_response" where
  "mockSubmitAnswer s questionId selectedIdx =
     (let q = find_question questionId;
          correct = (selectedIdx = mq_correctIndex q);
          newScore = score s + (if correct then 1 else 0);
          isLast = (questionNumber s \<ge> int (length MOCK_QUESTIONS))
      in \<lparr> r_correct = Some correct, r_is_correct = None,
           r_correctIndex = Some (mq_correctIndex q), r_correct_index = None,
           r_explanation = Some (mq_explanation q),
           r_score = Some newScore,
           r_questionNumber = Some (questionNumber s), r_question_number = None,
           r_totalQuestions = Some (int (length MOCK_QUESTIONS)), r_total_questions = None,
           r_gameOver = Some isLast, r_game_over = None \<rparr>)"

section \<open>View and state controller\<close>

text \<open>The values the \<^verbatim>\<open>useState\<close> calls of \<^verbatim>\<open>App\<close> start from.\<close>

definition initial_state :: state where
  "initial_state =
     \<lparr> gameStarted = False, question = None, selectedIndex = None, answerResult = None,
       score = 0, questionNumber = 0, totalQuestions = int (length MOCK_QUESTIONS),
       gameOver = False, loading = False, error = '''', usingMockBackend = False \<rparr>"

subsection \<open>Classifying a failure of the real API\<close>

text \<open>
  The three tests \<^verbatim>\<open>/Failed to fetch/i\<close>, \<^verbatim>\<open>/NetworkError/i\<close> and
  \<^verbatim>\<open>/CORS/i\<close> are literal patterns with the ignore-case flag: the pattern is
  tried at every position of the message, and two code units match when their upper-case
  forms agree. The patterns are ASCII, and canonicalisation never maps a code unit above
  127 to an ASCII one, so only the letters a to z have to be folded.
\<close>

definition upper_ascii :: "char \<Rightarrow> char" where
  "upper_ascii c =
     (case map_of (zip ''abcdefghijklmnopqrstuvwxyz'' ''ABCDEFGHIJKLMNOPQRSTUVWXYZ'') c of
        Some u \<Rightarrow> u
      | None \<Rightarrow> c)"

fun matches_here :: "string \<Rightarrow> string \<Rightarrow> bool" where
  "matches_here [] cs = True"
| "matches_here (p # ps) [] = False"
| "matches_here (p # ps) (c # cs) = (upper_ascii p = upper_ascii c \<and> matches_here ps cs)"

fun regex_test_i :: "string \<Rightarrow> string \<Rightarrow> bool" where
  "regex_test_i pat [] = matches_here pat []"
| "regex_test_i pat (c # cs) = (matches_here pat (c # cs) \<or> regex_test_i pat cs)"

text \<open>
  \<^verbatim>\<open>looksLikeMissingEndpoint\<close> of \<^verbatim>\<open>tryBackendOrMock\<close>;
  \<^verbatim>\<open>String(e?.message || "")\<close> of a string message is the message.
\<close>

definition looksLikeMissingEndpoint :: "js_error \<Rightarrow> bool" where
  "looksLikeMissingEndpoint e =
     (err_status e = Some 404 \<or>
      err_status e = Some 405 \<or>
      regex_test_i ''Failed to fetch'' (err_message e) \<or>
      regex_test_i ''NetworkError'' (err_message e) \<or>
      regex_test_i ''CORS'' (err_message e))"


text \<open>
  \<^verbatim>\<open>tryBackendOrMock(fn, mockFn)\<close>. The first argument is what the awaited call of
  the real API came to: \<open>Inr\<close> its value, \<open>Inl\<close> the value it threw. The mock
  function may set state, so it takes the pending state and returns it; a value it throws
  leaves \<^verbatim>\<open>tryBackendOrMock\<close> as it is.
\<close>

definition tryBackendOrMock ::
  "'a outcome \<Rightarrow> (state \<Rightarrow> 'a outcome \<times> state) \<Rightarrow> state \<Rightarrow> 'a outcome \<times> state" where
  "tryBackendOrMock fn mockFn s =
     (case fn of
        Inr v \<Rightarrow> (Inr v, s)
      | Inl e \<Rightarrow>
          if looksLikeMissingEndpoint e
          then mockFn (s\<lparr>usingMockBackend := True\<rparr>)
          else (Inl e, s))"

subsection \<open>Starting a game\<close>

definition mockStart :: "state \<Rightarrow> unit outcome \<times> state" where
  "mockStart s =
     (let q = MOCK_QUESTIONS ! 0
      in (Inr (),
          s\<lparr> score := 0,
             questionNumber := 1,
             totalQuestions := int (length MOCK_QUESTIONS),
             question := Some \<lparr> q_id = mq_id q, q_prompt = mq_prompt q,
                                q_choices = mq_choices q \<rparr>,
             selectedIndex := None,
             answerResult := None,
             gameOver := False,
             gameStarted := True \<rparr>))"

text \<open>
  \<^verbatim>\<open>a || b\<close> on strings takes \<open>b\<close> when \<open>a\<close> is missing or empty;
  \<^verbatim>\<open>a || b\<close> on arrays and \<^verbatim>\<open>a ?? b\<close> take \<open>b\<close> only when \<open>a\<close>
  is missing.
\<close>

definition or_string :: "string option \<Rightarrow> string \<Rightarrow> string" where
  "or_string a b = (case a of None \<Rightarrow> b | Some v \<Rightarrow> if v = '''' then b else v)"

definition nullish :: "'a option \<Rightarrow> 'a \<Rightarrow> 'a" where
  "nullish a b = (case a of None \<Rightarrow> b | Some v \<Rightarrow> v)"

text \<open>The object handed to \<^verbatim>\<open>setQuestion\<close> by both handlers.\<close>

definition shown_of :: "question_response \<Rightarrow> shown_question" where
  "shown_of q =
     \<lparr> q_id = or_string (qr_id q) (or_string (qr_question_id q)
                (or_string (qr_questionId q) ''unknown'')),
       q_prompt = or_string (qr_prompt q) (or_string (qr_question q)
                    (or_string (qr_text q) ''Question'')),
       q_choices = nullish (qr_choices q) (nullish (qr_options q) []) \<rparr>"

text \<open>
  A response with an empty body is \<^verbatim>\<open>null\<close> (\<open>None\<close> below); reading a
  property of it throws.
\<close>

definition null_read :: "string \<Rightarrow> js_error" where
  "null_read prop =
     \<lparr> err_status = None,
       err_message = ''Cannot read properties of null (reading '' @ [CHR 0x27] @ prop
                     @ [CHR 0x27] @ '')'' \<rparr>"

text \<open>\<^verbatim>\<open>e?.message || fallback\<close> of the \<^verbatim>\<open>catch\<close> blocks.\<close>

definition message_or :: "js_error \<Rightarrow> string \<Rightarrow> string" where
  "message_or e fallback = (if err_message e = '''' then fallback else err_message e)"

definition wrap_some :: "'a outcome \<Rightarrow> 'a option outcome" where
  "wrap_some r = (case r of Inl e \<Rightarrow> Inl e | Inr v \<Rightarrow> Inr (Some v))"

text \<open>
  \<^verbatim>\<open>handleStartGame\<close>, given what \<^verbatim>\<open>startGame\<close> and
  \<^verbatim>\<open>getCurrentQuestion\<close> came to. The abort controller it replaces is never
  handed to a request and is left out.
\<close>

definition handleStartGame ::
  "unit outcome \<Rightarrow> question_response option outcome \<Rightarrow> state \<Rightarrow> state" where
  "handleStartGame startOut questionOut s =
     (let s1 = s\<lparr>error := '''', loading := True\<rparr>;
          failed = (\<lambda>e st. st\<lparr>error := message_or e ''Unable to start game'',
                                loading := False\<rparr>)
      in case tryBackendOrMock startOut mockStart s1 of
           (Inl e, s2) \<Rightarrow> failed e s2
         | (Inr _, s2) \<Rightarrow>
             (case tryBackendOrMock questionOut (\<lambda>st. (wrap_some (mockGetQuestion 1), st)) s2 of
                (Inl e, s3) \<Rightarrow> failed e s3
              | (Inr None, s3) \<Rightarrow> failed (null_read ''id'') s3
              | (Inr (Some q), s3) \<Rightarrow>
                  s3\<lparr> question := Some (shown_of q),
                      totalQuestions := nullish (qr_total_questions q)
                                          (nullish (qr_totalQuestions q)
                                             (int (length MOCK_QUESTIONS))),
                      questionNumber := nullish (qr_question_number q)
                                          (nullish (qr_questionNumber q) 1),
                      score := 0,
                      selectedIndex := None,
                      answerResult := None,
                      gameOver := False,
                      gameStarted := True,
                      loading := False \<rparr>))"

subsection \<open>Selecting an answer\<close>

text \<open>
  The \<^verbatim>\<open>normalized\<close> object of \<^verbatim>\<open>handleSelectAnswer\<close>;
  \<^verbatim>\<open>!!(a ?? b)\<close> is true when the first of \<open>a\<close> and \<open>b\<close> that is present is
  \<^verbatim>\<open>true\<close>.
\<close>

definition coalesce :: "'a option \<Rightarrow> 'a option \<Rightarrow> 'a option" where
  "coalesce a b = (case a of None \<Rightarrow> b | Some v \<Rightarrow> Some v)"

definition normalize_answer :: "state \<Rightarrow> answer_response \<Rightarrow> answer_result" where
  "normalize_answer s result =
     \<lparr> ar_correct = (coalesce (r_correct result) (r_is_correct result) = Some True),
       ar_correctIndex = nullish (r_correctIndex result) (nullish (r_correct_index result) 0),
       ar_explanation = nullish (r_explanation result) '''',
       ar_score = nullish (r_score result) (score s),
       ar_questionNumber = nullish (r_questionNumber result)
                             (nullish (r_question_number result) (questionNumber s)),
       ar_totalQuestions = nullish (r_totalQuestions result)
                             (nullish (r_total_questions result) (totalQuestions s)),
       ar_gameOver = (coalesce (r_gameOver result) (r_game_over result) = Some True) \<rparr>"

text \<open>The guard at the head of \<^verbatim>\<open>handleSelectAnswer\<close>.\<close>

definition select_ignored :: "state \<Rightarrow> bool" where
  "select_ignored s =
     (question s = None \<or> loading s \<or> selectedIndex s \<noteq> None \<or> gameOver s)"

text \<open>
  The handler up to its \<^verbatim>\<open>await\<close>: the updates made so far are rendered while
  the request is in flight.
\<close>

definition handleSelectAnswer_begin :: "int \<Rightarrow> state \<Rightarrow> state" where
  "handleSelectAnswer_begin idx s =
     (if select_ignored s then s
      else s\<lparr>error := '''', loading := True, selectedIndex := Some idx\<rparr>)"

text \<open>
  The handler after the \<^verbatim>\<open>await\<close>: \<open>s\<close> is the state of the render the
  handler was created in (the values it reads), \<open>p\<close> the pending state it updates.
  Both the request and the mock read \<^verbatim>\<open>question.id\<close>, which throws when
  there is no question.
\<close>

definition handleSelectAnswer_resume ::
  "state \<Rightarrow> int \<Rightarrow> answer_response option outcome \<Rightarrow> state \<Rightarrow> state" where
  "handleSelectAnswer_resume s idx answerOut p =
     (let failed = (\<lambda>e st. st\<lparr>selectedIndex := None,
                                error := message_or e ''Unable to submit answer'',
                                loading := False\<rparr>)
      in case question s of
           None \<Rightarrow> failed (null_read ''id'') p
         | Some shown \<Rightarrow>
             (case tryBackendOrMock answerOut
                     (\<lambda>st. (Inr (Some (mockSubmitAnswer s (q_id shown) idx)), st)) p of
                (Inl e, p1) \<Rightarrow> failed e p1
              | (Inr None, p1) \<Rightarrow> failed (null_read ''correct'') p1
              | (Inr (Some result), p1) \<Rightarrow>
                  (let normalized = normalize_answer s result
                   in p1\<lparr> answerResult := Some normalized,
                          score := ar_score normalized,
                          totalQuestions := ar_totalQuestions normalized,
                          gameOver := ar_gameOver normalized,
                          loading := False \<rparr>)))"

definition handleSelectAnswer ::
  "int \<Rightarrow> answer_response option outcome \<Rightarrow> state \<Rightarrow> state" where
  "handleSelectAnswer idx answerOut s =
     (if select_ignored s then s
      else handleSelectAnswer_resume s idx answerOut (handleSelectAnswer_begin idx s))"

subsection \<open>Advancing and restarting\<close>

definition handleNext :: "question_response option outcome \<Rightarrow> state \<Rightarrow> state" where
  "handleNext questionOut s =
     (case answerResult s of
        None \<Rightarrow> s
      | Some res \<Rightarrow>
          if loading s then s
          else if ar_gameOver res then s\<lparr>gameOver := True\<rparr>
          else
            (let s1 = s\<lparr>error := '''', loading := True\<rparr>;
                 failed = (\<lambda>e st. st\<lparr>error := message_or e ''Unable to load next question'',
                                       loading := False\<rparr>);
                 nextNumber = questionNumber s + 1
             in case tryBackendOrMock questionOut
                       (\<lambda>st. (wrap_some (mockGetQuestion nextNumber), st)) s1 of
                  (Inl e, s2) \<Rightarrow> failed e s2
                | (Inr None, s2) \<Rightarrow> failed (null_read ''id'') s2
                | (Inr (Some q), s2) \<Rightarrow>
                    s2\<lparr> question := Some (shown_of q),
                        totalQuestions := nullish (qr_total_questions q)
                                            (nullish (qr_totalQuestions q) (totalQuestions s)),
                        questionNumber := nullish (qr_question_number q)
                                            (nullish (qr_questionNumber q) nextNumber),
                        selectedIndex := None,
                        answerResult := None,
                        gameOver := False,
                        loading := False \<rparr>))"

text \<open>The \<^verbatim>\<open>onClick\<close> of the Restart button.\<close>

definition restart :: "state \<Rightarrow> state" where
  "restart s =
     s\<lparr> gameStarted := False, question := None, selectedIndex := None,
        answerResult := None, gameOver := False, error := '''' \<rparr>"

text \<open>One user action, with what the requests it makes came to.\<close>

datatype action =
    Start "unit outcome" "question_response option outcome"
  | Select int "answer_response option outcome"
  | Next "question_response option outcome"
  | Restart

fun step :: "state \<Rightarrow> action \<Rightarrow> state" where
  "step s (Start startOut questionOut) = handleStartGame startOut questionOut s"
| "step s (Select idx answerOut) = handleSelectAnswer idx answerOut s"
| "step s (Next questionOut) = handleNext questionOut s"
| "step s Restart = restart s"

subsection \<open>Sessions\<close>

text \<open>
  A call of the real API that fails in the way \<^verbatim>\<open>tryBackendOrMock\<close> answers from
  the mock, and an action whose question call or submission fails so: the question or the
  grading it gets is the mock's.
\<close>

definition falls_back :: "'a outcome \<Rightarrow> bool" where
  "falls_back r = (case r of Inl e \<Rightarrow> looksLikeMissingEndpoint e | Inr _ \<Rightarrow> False)"

fun mock_mode :: "action \<Rightarrow> bool" where
  "mock_mode (Start startOut questionOut) = falls_back questionOut"
| "mock_mode (Select idx answerOut) = falls_back answerOut"
| "mock_mode (Next questionOut) = falls_back questionOut"
| "mock_mode Restart = True"

text \<open>
  What holds of the state between actions while every call falls back to the mock: either
  no answer is recorded, and then there is no question on screen or the score is below the
  question number; or an answer is recorded, the score is at most the question number,
  and the recorded game-over flag says whether this is the last question.
\<close>

definition mock_inv :: "state \<Rightarrow> bool" where
  "mock_inv s =
     (totalQuestions s = 3 \<and> 0 \<le> score s \<and>
      (case answerResult s of
         None \<Rightarrow>
           (question s = None \<and> score s \<le> 3) \<or>
           (selectedIndex s = None \<and> \<not> gameOver s \<and>
            score s + 1 \<le> questionNumber s \<and> questionNumber s \<le> 3)
       | Some res \<Rightarrow>
           selectedIndex s \<noteq> None \<and> score s \<le> questionNumber s \<and>
           1 \<le> questionNumber s \<and> questionNumber s \<le> 3 \<and>
           (ar_gameOver res \<longleftrightarrow> 3 \<le> questionNumber s)))"

text \<open>
  Two errors \<^verbatim>\<open>apiRequest\<close> throws, for a 404 and a 500 response whose body carries
  the \<open>detail\<close> shown, and the state after a start during which both calls met the 404.
\<close>

definition not_found_error :: js_error where
  "not_found_error = \<lparr> err_status = Some 404, err_message = ''Not Found'' \<rparr>"

definition server_error :: js_error where
  "server_error = \<lparr> err_status = Some 500, err_message = ''Internal Server Error'' \<rparr>"

definition mock_started :: state where
  "mock_started = handleStartGame (Inl not_found_error) (Inl not_found_error) initial_state"


definition live_question :: question_response where
  "live_question =
     \<lparr> qr_id = Some ''q1'', qr_question_id = None, qr_questionId = None,
       qr_prompt = Some ''First question'', qr_question = None, qr_text = None,
       qr_choices = Some [''A'', ''B''], qr_options = None,
       qr_total_questions = Some 3, qr_totalQuestions = None,
       qr_question_number = Some 1, qr_questionNumber = None \<rparr>"

section \<open>HTTP client\<close>

text \<open>
  A parsed response body. The client does two things with a number: it tests it for
  zero and it prints it. So a number is kept as the text JavaScript prints for it
  (\<^verbatim>\<open>String(n)\<close>: \<open>0\<close> for either zero, \<open>1.5\<close>, \<open>1e+21\<close>). An object is the list
  of its members, each key once, read by key. A property that is absent reads as
  \<^verbatim>\<open>undefined\<close>, which is \<open>None\<close>.
\<close>

datatype json =
    JNull
  | JBool bool
  | JNum string
  | JStr string
  | JArr "json list"
  | JObj "(string \<times> json) list"

text \<open>
  \<^verbatim>\<open>v.key\<close> (and \<^verbatim>\<open>v?.key\<close>) for the keys the client reads, \<open>detail\<close> and
  \<open>msg\<close>: only an object has them.
\<close>

fun get_prop :: "json \<Rightarrow> string \<Rightarrow> json option" where
  "get_prop (JObj members) key = map_of members key"
| "get_prop _ key = None"

fun truthy :: "json \<Rightarrow> bool" where
  "truthy JNull = False"
| "truthy (JBool b) = b"
| "truthy (JNum printed) = (printed \<noteq> ''0'')"
| "truthy (JStr s) = (s \<noteq> '''')"
| "truthy (JArr _) = True"
| "truthy (JObj _) = True"

text \<open>\<^verbatim>\<open>Array.prototype.join\<close> on strings.\<close>

fun join_with :: "string \<Rightarrow> string list \<Rightarrow> string" where
  "join_with sep [] = ''''"
| "join_with sep [x] = x"
| "join_with sep (x # y # ys) = x @ sep @ join_with sep (y # ys)"

text \<open>
  The string \<^verbatim>\<open>join\<close> makes of an element (\<^verbatim>\<open>ToString\<close>), \<open>None\<close> where the
  conversion throws a \<^verbatim>\<open>TypeError\<close>. An array is its elements joined by a comma,
  with \<^verbatim>\<open>null\<close> left empty. An object without a member \<open>toString\<close> is printed by
  \<^verbatim>\<open>Object.prototype.toString\<close>; a member of that name is parsed data, never a
  function, it hides the inherited method, and the conversion falls through to
  \<^verbatim>\<open>valueOf\<close>, which gives no primitive: it throws.
\<close>

fun js_to_string :: "json \<Rightarrow> string option" where
  "js_to_string JNull = Some ''null''"
| "js_to_string (JBool b) = Some (if b then ''true'' else ''false'')"
| "js_to_string (JNum printed) = Some printed"
| "js_to_string (JStr s) = Some s"
| "js_to_string (JArr xs) =
     map_option (join_with '','')
       (those (map (\<lambda>x. case x of JNull \<Rightarrow> Some '''' | _ \<Rightarrow> js_to_string x) xs))"
| "js_to_string (JObj members) =
     (case map_of members ''toString'' of
        None \<Rightarrow> Some ''[object Object]''
      | Some _ \<Rightarrow> None)"

text \<open>\<^verbatim>\<open>d?.msg || "Invalid request"\<close>\<close>

definition detail_entry :: "json \<Rightarrow> json" where
  "detail_entry d =
     (case get_prop d ''msg'' of
        None \<Rightarrow> JStr ''Invalid request''
      | Some m \<Rightarrow> if truthy m then m else JStr ''Invalid request'')"

text \<open>\<^verbatim>\<open>toErrorMessage\<close>; \<open>None\<close> where the \<^verbatim>\<open>join\<close> throws.\<close>

definition toErrorMessage :: "json \<Rightarrow> string option" where
  "toErrorMessage payload =
     (if \<not> truthy payload then Some ''Request failed''
      else case payload of
             JStr s \<Rightarrow> Some s
           | _ \<Rightarrow>
               (case get_prop payload ''detail'' of
                  Some (JStr d) \<Rightarrow> Some d
                | Some (JArr ds) \<Rightarrow>
                    map_option (join_with '', '')
                      (those (map (\<lambda>d. js_to_string (detail_entry d)) ds))
                | _ \<Rightarrow> Some ''Request failed''))"

text \<open>
  \<^verbatim>\<open>parseJsonSafe\<close>, on the text of the body. \<^verbatim>\<open>JSON.parse\<close> is a
  parameter: \<open>None\<close> where it throws.
\<close>

definition parseJsonSafe :: "(string \<Rightarrow> json option) \<Rightarrow> string \<Rightarrow> json" where
  "parseJsonSafe parse text =
     (if text = '''' then JNull
      else case parse text of
             Some v \<Rightarrow> v
           | None \<Rightarrow> JObj [(''detail'', JStr text)])"

text \<open>
  The decimal digits of a natural number. \<^verbatim>\<open>resp.status\<close> is an unsigned short,
  and a template literal prints an integer of that size by its digits.
\<close>

fun show_nat :: "nat \<Rightarrow> string" where
  "show_nat n =
     (if n < 10 then [''0123456789'' ! n]
      else show_nat (n div 10) @ [''0123456789'' ! (n mod 10)])"

declare show_nat.simps [simp del]

text \<open>
  \<^verbatim>\<open>toErrorMessage(payload) || `HTTP ${resp.status}`\<close>: the message of the error
  \<^verbatim>\<open>apiRequest\<close> throws, which is the one the interface shows.
\<close>

definition http_error_message :: "16 word \<Rightarrow> json \<Rightarrow> string option" where
  "http_error_message status payload =
     (case toErrorMessage payload of
        None \<Rightarrow> None
      | Some msg \<Rightarrow> Some (if msg = '''' then ''HTTP '' @ show_nat (unat status) else msg))"

text \<open>The \<^verbatim>\<open>TypeError\<close> of a conversion that throws; the message is the one V8 gives.\<close>

definition primitive_error :: js_error where
  "primitive_error =
     \<lparr> err_status = None, err_message = ''Cannot convert object to primitive value'' \<rparr>"

text \<open>
  \<^verbatim>\<open>apiRequest\<close> from the moment \<^verbatim>\<open>fetch\<close> has resolved with a status and a
  body; \<^verbatim>\<open>resp.ok\<close> is a status from 200 to 299. A \<^verbatim>\<open>TypeError\<close> thrown while
  the message is built leaves \<^verbatim>\<open>apiRequest\<close> in place of the HTTP error.
\<close>

definition apiRequest_response ::
  "(string \<Rightarrow> json option) \<Rightarrow> 16 word \<Rightarrow> string \<Rightarrow> json outcome" where
  "apiRequest_response parse status body =
     (let payload = parseJsonSafe parse body
      in if \<not> (200 \<le> status \<and> status \<le> 299)
         then (case http_error_message status payload of
                 None \<Rightarrow> Inl primitive_error
               | Some msg \<Rightarrow> Inl \<lparr> err_status = Some (uint status), err_message = msg \<rparr>)
         else Inr payload)"

section \<open>Admin create form\<close>









section \<open>Properties of the mock provider\<close>

lemma length_MOCK_QUESTIONS: "length MOCK_QUESTIONS = 3"
  by (simp add: MOCK_QUESTIONS_def)

lemma mq_id_mock [simp]:
  "mq_id mock_q1 = ''q1''" "mq_id mock_q2 = ''q2''" "mq_id mock_q3 = ''q3''"
  by (simp_all add: mock_q1_def mock_q2_def mock_q3_def)

lemma mq_correctIndex_mock [simp]:
  "mq_correctIndex mock_q1 = 0" "mq_correctIndex mock_q2 = 1" "mq_correctIndex mock_q3 = 2"
  by (simp_all add: mock_q1_def mock_q2_def mock_q3_def)

lemma find_question_ids [simp]:
  "find_question ''q1'' = mock_q1" "find_question ''q2'' = mock_q2"
  "find_question ''q3'' = mock_q3"
  by (simp_all add: find_question_def MOCK_QUESTIONS_def)

lemma find_question_member:
  assumes "q \<in> set MOCK_QUESTIONS"
  shows "find_question (mq_id q) = q"
proof -
  from assms have "q = mock_q1 \<or> q = mock_q2 \<or> q = mock_q3"
    by (simp add: MOCK_QUESTIONS_def)
  then show ?thesis
    by (elim disjE) simp_all
qed

text \<open>
  C1. For every question \<open>q\<close> of the mock list and every prior score, submitting \<open>q\<close>'s id
  with \<open>q\<close>'s stored correct index gives \<open>correct = true\<close> and the score plus one;
  submitting any other index gives \<open>correct = false\<close> and the score unchanged.
\<close>

theorem mockSubmitAnswer_grading:
  assumes "q \<in> set MOCK_QUESTIONS"
  shows "r_correct (mockSubmitAnswer s (mq_id q) (mq_correctIndex q)) = Some True
       \<and> r_score (mockSubmitAnswer s (mq_id q) (mq_correctIndex q)) = Some (score s + 1)
       \<and> (\<forall>i. i \<noteq> mq_correctIndex q \<longrightarrow>
            r_correct (mockSubmitAnswer s (mq_id q) i) = Some False
          \<and> r_score (mockSubmitAnswer s (mq_id q) i) = Some (score s))"
  using find_question_member [OF assms] by (simp add: mockSubmitAnswer_def)

theorem mockSubmitAnswer_grading_witness:
  "mock_q2 \<in> set MOCK_QUESTIONS
   \<and> r_correct (mockSubmitAnswer initial_state ''q2'' 1) = Some True
   \<and> r_score (mockSubmitAnswer initial_state ''q2'' 1) = Some 1
   \<and> r_correct (mockSubmitAnswer initial_state ''q2'' 3) = Some False
   \<and> r_score (mockSubmitAnswer initial_state ''q2'' 3) = Some 0"
proof -
  have m: "mock_q2 \<in> set MOCK_QUESTIONS"
    by (simp add: MOCK_QUESTIONS_def)
  show ?thesis
    using m mockSubmitAnswer_grading [OF m, of initial_state]
    by (simp add: initial_state_def)
qed

text \<open>
  C2, as stated: the game-over flag of a mock submission is true exactly when the question
  number at submission time equals the number of mock questions. The code compares with
  \<^verbatim>\<open>>=\<close>, so the statement fails for a question number above the count; such a
  number reaches the mock when the real API served the question and the submission then
  falls back. At question number 4 the flag is true although 4 is not 3.
\<close>

theorem mockSubmitAnswer_gameOver_counterexample:
  "\<not> (r_gameOver (mockSubmitAnswer (initial_state\<lparr>questionNumber := 4\<rparr>) ''q1'' 0) = Some True
       \<longleftrightarrow> questionNumber (initial_state\<lparr>questionNumber := 4\<rparr>) = int (length MOCK_QUESTIONS))"
  by (simp add: mockSubmitAnswer_def length_MOCK_QUESTIONS Let_def initial_state_def)

text \<open>
  C2, amended: the game-over flag of a mock submission is true exactly when the question
  number at submission time is at least the number of mock questions; while the question
  number does not exceed that count, this is the case exactly when the two are equal.
\<close>

theorem mockSubmitAnswer_gameOver:
  "r_gameOver (mockSubmitAnswer s questionId selectedIdx)
     = Some (questionNumber s \<ge> int (length MOCK_QUESTIONS))
   \<and> (questionNumber s \<le> int (length MOCK_QUESTIONS) \<longrightarrow>
        (r_gameOver (mockSubmitAnswer s questionId selectedIdx) = Some True
           \<longleftrightarrow> questionNumber s = int (length MOCK_QUESTIONS)))"
  by (auto simp add: mockSubmitAnswer_def Let_def)

theorem mockSubmitAnswer_gameOver_witness:
  "questionNumber (initial_state\<lparr>questionNumber := 3\<rparr>) \<le> int (length MOCK_QUESTIONS)
   \<and> r_gameOver (mockSubmitAnswer (initial_state\<lparr>questionNumber := 3\<rparr>) ''q3'' 2) = Some True
   \<and> questionNumber (initial_state\<lparr>questionNumber := 3\<rparr>) = int (length MOCK_QUESTIONS)"
  using mockSubmitAnswer_gameOver [of "initial_state\<lparr>questionNumber := 3\<rparr>" "''q3''" 2]
  by (simp add: length_MOCK_QUESTIONS)

text \<open>
  On integers the clamped index is always inside the list, so \<^verbatim>\<open>mockGetQuestion\<close>
  never throws.
\<close>

lemma mockGetQuestion_Inr:
  "mockGetQuestion n =
     (let idx = clamp ((if n = 0 then 1 else n) - 1) 0 2; q = MOCK_QUESTIONS ! nat idx
      in Inr \<lparr> qr_id = Some (mq_id q), qr_question_id = None, qr_questionId = None,
               qr_prompt = Some (mq_prompt q), qr_question = None, qr_text = None,
               qr_choices = Some (mq_choices q), qr_options = None,
               qr_total_questions = Some 3, qr_totalQuestions = None,
               qr_question_number = Some (idx + 1), qr_questionNumber = None \<rparr>)"
  by (simp add: mockGetQuestion_def length_MOCK_QUESTIONS clamp_def Let_def)

text \<open>
  C6. For every integer \<open>n\<close> outside the range from 1 to the number of mock questions,
  \<^verbatim>\<open>mockGetQuestion\<close> returns the question at the nearest valid position \<open>p\<close>
  (1 below the range, the last position above it), with \<open>question_number = p\<close> and
  \<open>total_questions\<close> the length of the mock list.
\<close>

theorem mockGetQuestion_clamps:
  assumes "n < 1 \<or> n > int (length MOCK_QUESTIONS)"
  shows "\<exists>r. mockGetQuestion n = Inr r
           \<and> (let p = (if n < 1 then 1 else int (length MOCK_QUESTIONS));
                   q = MOCK_QUESTIONS ! nat (p - 1)
               in 1 \<le> p \<and> p \<le> int (length MOCK_QUESTIONS)
                \<and> (\<forall>m. 1 \<le> m \<and> m \<le> int (length MOCK_QUESTIONS) \<longrightarrow> \<bar>n - p\<bar> \<le> \<bar>n - m\<bar>)
                \<and> qr_id r = Some (mq_id q)
                \<and> qr_prompt r = Some (mq_prompt q)
                \<and> qr_choices r = Some (mq_choices q)
                \<and> qr_question_number r = Some p
                \<and> qr_total_questions r = Some (int (length MOCK_QUESTIONS)))"
  using assms
  by (auto simp add: mockGetQuestion_Inr length_MOCK_QUESTIONS clamp_def Let_def)

theorem mockGetQuestion_clamps_witness:
  "((7::int) < 1 \<or> 7 > int (length MOCK_QUESTIONS))
   \<and> (\<exists>r. mockGetQuestion 7 = Inr r
          \<and> qr_id r = Some ''q3'' \<and> qr_question_number r = Some 3
          \<and> qr_total_questions r = Some 3)"
  using mockGetQuestion_clamps [of 7]
  by (auto simp add: length_MOCK_QUESTIONS MOCK_QUESTIONS_def Let_def)

section \<open>Normalising a submit-answer response\<close>

text \<open>
  C10. When the response object has none of the accepted spellings of a field, the
  normalisation takes the default for that field: \<open>correct\<close> is false, \<open>correctIndex\<close>
  is 0, \<open>explanation\<close> is empty, \<open>score\<close>, \<open>questionNumber\<close> and \<open>totalQuestions\<close>
  keep the values of the state, and \<open>gameOver\<close> is false.
\<close>

theorem normalize_answer_defaults:
  "(r_correct r = None \<and> r_is_correct r = None \<longrightarrow> ar_correct (normalize_answer s r) = False)
   \<and> (r_correctIndex r = None \<and> r_correct_index r = None \<longrightarrow>
        ar_correctIndex (normalize_answer s r) = 0)
   \<and> (r_explanation r = None \<longrightarrow> ar_explanation (normalize_answer s r) = '''')
   \<and> (r_score r = None \<longrightarrow> ar_score (normalize_answer s r) = score s)
   \<and> (r_questionNumber r = None \<and> r_question_number r = None \<longrightarrow>
        ar_questionNumber (normalize_answer s r) = questionNumber s)
   \<and> (r_totalQuestions r = None \<and> r_total_questions r = None \<longrightarrow>
        ar_totalQuestions (normalize_answer s r) = totalQuestions s)
   \<and> (r_gameOver r = None \<and> r_game_over r = None \<longrightarrow>
        ar_gameOver (normalize_answer s r) = False)"
  by (simp add: normalize_answer_def nullish_def coalesce_def)

theorem normalize_answer_defaults_witness:
  "normalize_answer (initial_state\<lparr>score := 2, questionNumber := 3\<rparr>)
     \<lparr> r_correct = None, r_is_correct = None, r_correctIndex = None, r_correct_index = None,
       r_explanation = None, r_score = None, r_questionNumber = None,
       r_question_number = None, r_totalQuestions = None, r_total_questions = None,
       r_gameOver = None, r_game_over = None \<rparr>
   = \<lparr> ar_correct = False, ar_correctIndex = 0, ar_explanation = '''', ar_score = 2,
       ar_questionNumber = 3, ar_totalQuestions = 3, ar_gameOver = False \<rparr>"
  using normalize_answer_defaults
          [of "\<lparr> r_correct = None, r_is_correct = None, r_correctIndex = None,
                  r_correct_index = None, r_explanation = None, r_score = None,
                  r_questionNumber = None, r_question_number = None, r_totalQuestions = None,
                  r_total_questions = None, r_gameOver = None, r_game_over = None \<rparr>"
              "initial_state\<lparr>score := 2, questionNumber := 3\<rparr>"]
  by (cases "normalize_answer (initial_state\<lparr>score := 2, questionNumber := 3\<rparr>)
     \<lparr> r_correct = None, r_is_correct = None, r_correctIndex = None, r_correct_index = None,
       r_explanation = None, r_score = None, r_questionNumber = None,
       r_question_number = None, r_totalQuestions = None, r_total_questions = None,
       r_gameOver = None, r_game_over = None \<rparr>")
     (simp add: initial_state_def length_MOCK_QUESTIONS)

section \<open>Validation of the admin create form\<close>





section \<open>Error messages of the HTTP client\<close>

text \<open>
  The error \<^verbatim>\<open>apiRequest\<close> throws for a status outside 200 to 299 carries the
  message built from the body, which is never empty, so the \<^verbatim>\<open>catch\<close> blocks of
  the controller show it as it is.
\<close>

lemma apiRequest_response_error:
  "\<not> (200 \<le> status \<and> status \<le> 299) \<Longrightarrow>
   http_error_message status (parseJsonSafe parse body) = Some msg \<Longrightarrow>
   apiRequest_response parse status body =
     Inl \<lparr> err_status = Some (uint status), err_message = msg \<rparr>"
  by (simp add: apiRequest_response_def)

lemma http_error_message_shown:
  "http_error_message status payload = Some msg \<Longrightarrow>
   message_or \<lparr> err_status = Some (uint status), err_message = msg \<rparr> fallback = msg"
  by (auto simp add: message_or_def http_error_message_def split: option.splits if_splits)

text \<open>
  C9, as stated: a string \<open>detail\<close> is used as the message as it is. The message is
  \<^verbatim>\<open>toErrorMessage(payload) || `HTTP ${resp.status}`\<close>, so an empty \<open>detail\<close> is
  replaced: for the body \<^verbatim>\<open>{"detail": ""}\<close> with status 500 the message is
  \<open>HTTP 500\<close>, not the empty string.
\<close>

theorem http_error_message_counterexample:
  "get_prop (JObj [(''detail'', JStr '''')]) ''detail'' = Some (JStr '''')
   \<and> http_error_message 500 (JObj [(''detail'', JStr '''')]) = Some ''HTTP 500''"
  by (simp add: http_error_message_def toErrorMessage_def show_nat.simps)

lemma toErrorMessage_detail_string:
  "get_prop (JObj ms) ''detail'' = Some (JStr d) \<Longrightarrow> toErrorMessage (JObj ms) = Some d"
  by (simp add: toErrorMessage_def)

lemma toErrorMessage_detail_list:
  "get_prop (JObj ms) ''detail'' = Some (JArr ds) \<Longrightarrow>
   toErrorMessage (JObj ms) =
     map_option (join_with '', '') (those (map (\<lambda>d. js_to_string (detail_entry d)) ds))"
  by (simp add: toErrorMessage_def)

lemma detail_entry_text:
  "js_to_string (detail_entry e) =
     (case get_prop e ''msg'' of
        None \<Rightarrow> Some ''Invalid request''
      | Some m \<Rightarrow> if truthy m then js_to_string m else Some ''Invalid request'')"
  by (simp add: detail_entry_def split: option.split)

text \<open>Entries whose \<open>msg\<close> is absent or a string never make the conversion throw.\<close>

lemma those_string_entries:
  assumes "\<forall>e \<in> set ds. get_prop e ''msg'' = None \<or> (\<exists>t. get_prop e ''msg'' = Some (JStr t))"
  shows "those (map (\<lambda>d. js_to_string (detail_entry d)) ds) =
           Some (map (\<lambda>e. case get_prop e ''msg'' of
                            Some (JStr t) \<Rightarrow> if t = '''' then ''Invalid request'' else t
                          | _ \<Rightarrow> ''Invalid request'') ds)"
  using assms
proof (induction ds)
  case Nil
  then show ?case by simp
next
  case (Cons d ds)
  then have "get_prop d ''msg'' = None \<or> (\<exists>t. get_prop d ''msg'' = Some (JStr t))"
    by simp
  then have "js_to_string (detail_entry d) =
      Some (case get_prop d ''msg'' of
              Some (JStr t) \<Rightarrow> if t = '''' then ''Invalid request'' else t
            | _ \<Rightarrow> ''Invalid request'')"
    by (auto simp add: detail_entry_text)
  with Cons show ?case
    by simp
qed

lemma join_with_nonempty:
  "xs \<noteq> [] \<Longrightarrow> \<forall>x \<in> set xs. x \<noteq> '''' \<Longrightarrow> join_with sep xs \<noteq> ''''"
  by (induction sep xs rule: join_with.induct) auto

text \<open>
  C9, amended. For an HTTP error response the message is derived from the parsed body so:
  a string \<open>detail\<close> is the message, except that an empty one gives \<open>HTTP\<close> and the
  status; a list \<open>detail\<close> gives, for each entry, its \<open>msg\<close> converted to a string when
  \<open>msg\<close> is truthy and \<open>Invalid request\<close> otherwise (absent, empty, null, zero or false),
  joined with a comma and a space, except that an empty result gives \<open>HTTP\<close> and the
  status, and that a \<open>msg\<close> whose conversion throws makes the request fail with that
  \<^verbatim>\<open>TypeError\<close>; in particular, when every \<open>msg\<close> is absent or a string, the
  message is the non-empty ones and \<open>Invalid request\<close> for the others, joined, or
  \<open>HTTP\<close> and the status for the empty list; a body that is not empty and not JSON is
  wrapped as an object whose \<open>detail\<close> is the raw text, and the raw text is the message;
  an empty body parses to \<^verbatim>\<open>null\<close> and gives \<open>Request failed\<close>.
\<close>

theorem http_error_message_cases:
  "(get_prop (JObj ms) ''detail'' = Some (JStr d) \<longrightarrow>
      http_error_message status (JObj ms) =
        Some (if d = '''' then ''HTTP '' @ show_nat (unat status) else d))
   \<and> (get_prop (JObj ms') ''detail'' = Some (JArr ds) \<longrightarrow>
      http_error_message status (JObj ms') =
        (case those (map (\<lambda>e. case get_prop e ''msg'' of
                                None \<Rightarrow> Some ''Invalid request''
                              | Some m \<Rightarrow> if truthy m then js_to_string m
                                          else Some ''Invalid request'') ds) of
           None \<Rightarrow> None
         | Some texts \<Rightarrow>
             Some (if join_with '', '' texts = '''' then ''HTTP '' @ show_nat (unat status)
                   else join_with '', '' texts)))
   \<and> (get_prop (JObj ms') ''detail'' = Some (JArr ds)
        \<and> (\<forall>e \<in> set ds. get_prop e ''msg'' = None \<or> (\<exists>t. get_prop e ''msg'' = Some (JStr t)))
      \<longrightarrow>
      http_error_message status (JObj ms') =
        Some (if ds = [] then ''HTTP '' @ show_nat (unat status)
              else join_with '', ''
                     (map (\<lambda>e. case get_prop e ''msg'' of
                                 Some (JStr t) \<Rightarrow> if t = '''' then ''Invalid request'' else t
                               | _ \<Rightarrow> ''Invalid request'') ds)))
   \<and> (body \<noteq> '''' \<and> parse body = None \<longrightarrow>
        parseJsonSafe parse body = JObj [(''detail'', JStr body)]
      \<and> http_error_message status (parseJsonSafe parse body) = Some body)
   \<and> parseJsonSafe parse '''' = JNull
   \<and> http_error_message status JNull = Some ''Request failed''"
proof -
  have str: "get_prop (JObj ms) ''detail'' = Some (JStr d) \<longrightarrow>
      http_error_message status (JObj ms) =
        Some (if d = '''' then ''HTTP '' @ show_nat (unat status) else d)"
    by (simp add: http_error_message_def toErrorMessage_detail_string)
  have lst: "get_prop (JObj ms') ''detail'' = Some (JArr ds) \<longrightarrow>
      http_error_message status (JObj ms') =
        (case those (map (\<lambda>e. case get_prop e ''msg'' of
                                None \<Rightarrow> Some ''Invalid request''
                              | Some m \<Rightarrow> if truthy m then js_to_string m
                                          else Some ''Invalid request'') ds) of
           None \<Rightarrow> None
         | Some texts \<Rightarrow>
             Some (if join_with '', '' texts = '''' then ''HTTP '' @ show_nat (unat status)
                   else join_with '', '' texts))"
    by (simp add: http_error_message_def toErrorMessage_detail_list detail_entry_text
          split: option.split)
  have wf: "get_prop (JObj ms') ''detail'' = Some (JArr ds)
        \<and> (\<forall>e \<in> set ds. get_prop e ''msg'' = None \<or> (\<exists>t. get_prop e ''msg'' = Some (JStr t)))
      \<longrightarrow>
      http_error_message status (JObj ms') =
        Some (if ds = [] then ''HTTP '' @ show_nat (unat status)
              else join_with '', ''
                     (map (\<lambda>e. case get_prop e ''msg'' of
                                 Some (JStr t) \<Rightarrow> if t = '''' then ''Invalid request'' else t
                               | _ \<Rightarrow> ''Invalid request'') ds))"
  proof (intro impI, elim conjE)
    assume d: "get_prop (JObj ms') ''detail'' = Some (JArr ds)"
      and e: "\<forall>e \<in> set ds. get_prop e ''msg'' = None \<or> (\<exists>t. get_prop e ''msg'' = Some (JStr t))"
    let ?texts = "map (\<lambda>e. case get_prop e ''msg'' of
                            Some (JStr t) \<Rightarrow> if t = '''' then ''Invalid request'' else t
                          | _ \<Rightarrow> ''Invalid request'') ds"
    have filled: "\<forall>x \<in> set ?texts. x \<noteq> ''''"
      by (auto split: option.splits json.splits)
    have empty: "join_with '', '' ?texts = '''' \<longleftrightarrow> ds = []"
    proof (cases "ds = []")
      case True
      then show ?thesis by simp
    next
      case False
      then have "?texts \<noteq> []" by simp
      from join_with_nonempty [OF this filled] False show ?thesis by simp
    qed
    have "http_error_message status (JObj ms') =
            Some (if join_with '', '' ?texts = '''' then ''HTTP '' @ show_nat (unat status)
                  else join_with '', '' ?texts)"
      by (simp add: http_error_message_def toErrorMessage_detail_list [OF d]
            those_string_entries [OF e])
    then show "http_error_message status (JObj ms') =
        Some (if ds = [] then ''HTTP '' @ show_nat (unat status) else join_with '', '' ?texts)"
      by (simp add: empty)
  qed
  have raw: "body \<noteq> '''' \<and> parse body = None \<longrightarrow>
        parseJsonSafe parse body = JObj [(''detail'', JStr body)]
      \<and> http_error_message status (parseJsonSafe parse body) = Some body"
    by (simp add: parseJsonSafe_def http_error_message_def toErrorMessage_def)
  have null: "parseJsonSafe parse '''' = JNull"
    "http_error_message status JNull = Some ''Request failed''"
    by (simp_all add: parseJsonSafe_def http_error_message_def toErrorMessage_def)
  from str lst wf raw null show ?thesis
    by blast
qed

theorem http_error_message_cases_witness:
  "get_prop (JObj [(''detail'', JStr ''Question not found'')]) ''detail''
     = Some (JStr ''Question not found'')
   \<and> http_error_message 404 (JObj [(''detail'', JStr ''Question not found'')])
     = Some ''Question not found''
   \<and> get_prop (JObj [(''detail'', JArr [JObj [(''msg'', JStr ''field required'')], JObj []])])
        ''detail''
     = Some (JArr [JObj [(''msg'', JStr ''field required'')], JObj []])
   \<and> list_all (\<lambda>e. get_prop e ''msg'' = None \<or> (\<exists>t. get_prop e ''msg'' = Some (JStr t)))
        [JObj [(''msg'', JStr ''field required'')], JObj []]
   \<and> http_error_message 404
        (JObj [(''detail'', JArr [JObj [(''msg'', JStr ''field required'')], JObj []])])
     = Some ''field required, Invalid request''
   \<and> ''Bad Gateway'' \<noteq> '''' \<and> (\<lambda>_. None :: json option) ''Bad Gateway'' = None
   \<and> http_error_message 404 (parseJsonSafe (\<lambda>_. None) ''Bad Gateway'') = Some ''Bad Gateway''"
  using http_error_message_cases
          [of "[(''detail'', JStr ''Question not found'')]" "''Question not found''" 404
              "[(''detail'', JArr [JObj [(''msg'', JStr ''field required'')], JObj []])]"
              "[JObj [(''msg'', JStr ''field required'')], JObj []]"
              "''Bad Gateway''" "\<lambda>_. None"]
  by (simp add: parseJsonSafe_def)

text \<open>
  A \<open>msg\<close> that is an object with a member \<open>toString\<close> makes \<^verbatim>\<open>join\<close> throw, and the
  request fails with the \<^verbatim>\<open>TypeError\<close> instead of the HTTP error.
\<close>

lemma apiRequest_response_throws:
  "apiRequest_response
     (\<lambda>_. Some (JObj [(''detail'', JArr [JObj [(''msg'', JObj [(''toString'', JNull)])]])]))
     422 ''body''
   = Inl primitive_error"
  by (simp add: apiRequest_response_def parseJsonSafe_def http_error_message_def
        toErrorMessage_def detail_entry_def)

section \<open>The handlers, call by call\<close>

lemma MOCK_QUESTIONS_nth [simp]:
  "MOCK_QUESTIONS ! 0 = mock_q1" "MOCK_QUESTIONS ! Suc 0 = mock_q2" "MOCK_QUESTIONS ! 2 = mock_q3"
  by (simp_all add: MOCK_QUESTIONS_def numeral_2_eq_2)

lemma mq_prompt_nonempty [simp]:
  "mq_prompt mock_q1 \<noteq> []" "mq_prompt mock_q2 \<noteq> []" "mq_prompt mock_q3 \<noteq> []"
  by (simp_all add: mock_q1_def mock_q2_def mock_q3_def)

lemma tryBackendOrMock_falls_back:
  "falls_back r \<Longrightarrow> tryBackendOrMock r mockFn s = mockFn (s\<lparr>usingMockBackend := True\<rparr>)"
  by (cases r) (simp_all add: falls_back_def tryBackendOrMock_def)

lemma tryBackendOrMock_answered: "tryBackendOrMock (Inr v) mockFn s = (Inr v, s)"
  by (simp add: tryBackendOrMock_def)


text \<open>The question the mock serves in place of a call for question \<open>n\<close>.\<close>

lemma mockGetQuestion_shown:
  "\<exists>q. mockGetQuestion n = Inr q
       \<and> qr_total_questions q = Some 3 \<and> qr_totalQuestions q = None
       \<and> qr_question_number q = Some (clamp n 1 3) \<and> qr_questionNumber q = None"
  by (auto simp add: mockGetQuestion_Inr Let_def clamp_def)

lemma mockGetQuestion_first:
  "\<exists>q. mockGetQuestion 1 = Inr q
       \<and> shown_of q = \<lparr> q_id = ''q1'', q_prompt = mq_prompt mock_q1,
                        q_choices = mq_choices mock_q1 \<rparr>"
  by (simp add: mockGetQuestion_Inr Let_def clamp_def shown_of_def or_string_def nullish_def)

text \<open>
  A start whose question call falls back, the start call having been answered or having
  fallen back itself.
\<close>

lemma handleStartGame_mock:
  assumes "startOut = Inr u \<or> falls_back startOut" "falls_back questionOut"
  shows "handleStartGame startOut questionOut s =
           s\<lparr> error := '''', usingMockBackend := True,
              question := Some \<lparr> q_id = ''q1'', q_prompt = mq_prompt mock_q1,
                                 q_choices = mq_choices mock_q1 \<rparr>,
              totalQuestions := 3, questionNumber := 1, score := 0,
              selectedIndex := None, answerResult := None, gameOver := False,
              gameStarted := True, loading := False \<rparr>"
  using assms
  by (elim disjE)
     (simp_all add: handleStartGame_def tryBackendOrMock_falls_back tryBackendOrMock_answered
        mockStart_def Let_def mockGetQuestion_Inr wrap_some_def clamp_def shown_of_def
        or_string_def nullish_def length_MOCK_QUESTIONS)

lemma handleStartGame_start_error:
  "\<not> looksLikeMissingEndpoint e \<Longrightarrow>
   handleStartGame (Inl e) questionOut s =
     s\<lparr> error := message_or e ''Unable to start game'', loading := False \<rparr>"
  by (simp add: handleStartGame_def tryBackendOrMock_def Let_def)



lemma handleSelectAnswer_mock:
  assumes "falls_back answerOut" "\<not> select_ignored s"
  shows "handleSelectAnswer idx answerOut s =
           s\<lparr> error := '''', usingMockBackend := True, selectedIndex := Some idx,
              answerResult :=
                Some (normalize_answer s (mockSubmitAnswer s (q_id (the (question s))) idx)),
              score := score s + (if idx = mq_correctIndex (find_question (q_id (the (question s))))
                                  then 1 else 0),
              totalQuestions := 3,
              gameOver := (3 \<le> questionNumber s),
              loading := False \<rparr>"
  using assms
  by (cases "question s")
     (simp_all add: handleSelectAnswer_def handleSelectAnswer_resume_def
        handleSelectAnswer_begin_def tryBackendOrMock_falls_back Let_def select_ignored_def
        normalize_answer_def mockSubmitAnswer_def nullish_def coalesce_def
        length_MOCK_QUESTIONS)

lemma handleSelectAnswer_error:
  assumes "\<not> looksLikeMissingEndpoint e" "\<not> select_ignored s"
  shows "handleSelectAnswer idx (Inl e) s =
           s\<lparr> selectedIndex := None, error := message_or e ''Unable to submit answer'',
              loading := False \<rparr>"
  using assms
  by (cases "question s")
     (simp_all add: handleSelectAnswer_def handleSelectAnswer_resume_def
        handleSelectAnswer_begin_def tryBackendOrMock_def select_ignored_def Let_def)

lemma handleNext_mock:
  assumes "falls_back questionOut" "answerResult s = Some res" "\<not> loading s"
    "\<not> ar_gameOver res"
  shows "\<exists>q. mockGetQuestion (questionNumber s + 1) = Inr q \<and>
           handleNext questionOut s =
             s\<lparr> error := '''', usingMockBackend := True, question := Some (shown_of q),
                totalQuestions := 3, questionNumber := clamp (questionNumber s + 1) 1 3,
                selectedIndex := None, answerResult := None, gameOver := False,
                loading := False \<rparr>"
  using assms
  by (simp add: handleNext_def tryBackendOrMock_falls_back Let_def mockGetQuestion_Inr
        wrap_some_def nullish_def clamp_def)

lemma handleNext_error:
  assumes "\<not> looksLikeMissingEndpoint e" "answerResult s = Some res" "\<not> loading s"
    "\<not> ar_gameOver res"
  shows "handleNext (Inl e) s =
           s\<lparr> error := message_or e ''Unable to load next question'', loading := False \<rparr>"
  using assms
  by (simp add: handleNext_def tryBackendOrMock_def Let_def)

text \<open>No handler ever clears the mock-mode flag.\<close>

lemma handleStartGame_flag:
  "usingMockBackend s \<Longrightarrow> usingMockBackend (handleStartGame startOut questionOut s)"
  by (cases startOut; cases questionOut)
     (auto simp add: handleStartGame_def tryBackendOrMock_def mockStart_def wrap_some_def
        mockGetQuestion_Inr Let_def split: option.splits)

lemma handleSelectAnswer_flag:
  "usingMockBackend s \<Longrightarrow> usingMockBackend (handleSelectAnswer idx answerOut s)"
  by (cases answerOut)
     (auto simp add: handleSelectAnswer_def handleSelectAnswer_resume_def
        handleSelectAnswer_begin_def tryBackendOrMock_def Let_def split: option.splits)

lemma handleNext_flag:
  "usingMockBackend s \<Longrightarrow> usingMockBackend (handleNext questionOut s)"
  by (cases questionOut)
     (auto simp add: handleNext_def tryBackendOrMock_def wrap_some_def mockGetQuestion_Inr
        Let_def split: option.splits)

lemma step_flag: "usingMockBackend s \<Longrightarrow> usingMockBackend (step s a)"
  by (cases a)
     (simp_all add: handleStartGame_flag handleSelectAnswer_flag handleNext_flag restart_def)

lemma run_flag: "usingMockBackend s \<Longrightarrow> usingMockBackend (foldl step s acts)"
  by (induction acts arbitrary: s) (simp_all add: step_flag)

section \<open>Fallback classification\<close>






section \<open>Sessions served by the mock\<close>

lemma restart_mock_inv: "mock_inv s \<Longrightarrow> mock_inv (restart s)"
  by (auto simp add: mock_inv_def restart_def split: option.splits)

lemma handleStartGame_mock_inv:
  "startOut = Inr u \<or> falls_back startOut \<Longrightarrow> falls_back questionOut \<Longrightarrow>
   mock_inv (handleStartGame startOut questionOut s)"
  by (simp add: handleStartGame_mock mock_inv_def)

lemma handleStartGame_again_mock_inv:
  assumes "mock_inv s" "falls_back questionOut"
  shows "mock_inv (handleStartGame startOut questionOut s)"
proof (cases startOut)
  case (Inr u)
  with assms(2) show ?thesis
    by (simp add: handleStartGame_mock_inv)
next
  case (Inl e)
  show ?thesis
  proof (cases "looksLikeMissingEndpoint e")
    case True
    with Inl have "falls_back startOut"
      by (simp add: falls_back_def)
    with assms(2) show ?thesis
      by (simp add: handleStartGame_mock_inv)
  next
    case False
    with Inl assms(1) show ?thesis
      by (auto simp add: handleStartGame_start_error mock_inv_def split: option.splits)
  qed
qed

lemma handleSelectAnswer_mock_inv:
  assumes "mock_inv s" "falls_back answerOut"
  shows "mock_inv (handleSelectAnswer idx answerOut s)"
proof (cases "select_ignored s")
  case True
  with assms show ?thesis
    by (simp add: handleSelectAnswer_def)
next
  case False
  then have "selectedIndex s = None" "question s \<noteq> None"
    by (simp_all add: select_ignored_def)
  with assms(1) have bound: "answerResult s = None" "totalQuestions s = 3" "0 \<le> score s"
    "score s + 1 \<le> questionNumber s" "questionNumber s \<le> 3"
    by (auto simp add: mock_inv_def split: option.splits)
  have flag: "ar_gameOver (normalize_answer s (mockSubmitAnswer s qid idx))
                \<longleftrightarrow> 3 \<le> questionNumber s" for qid
    by (simp add: normalize_answer_def mockSubmitAnswer_def coalesce_def Let_def
          length_MOCK_QUESTIONS)
  from bound show ?thesis
    by (simp add: handleSelectAnswer_mock [OF assms(2) False] mock_inv_def flag)
qed

lemma handleNext_mock_inv:
  assumes "mock_inv s" "falls_back questionOut"
  shows "mock_inv (handleNext questionOut s)"
proof (cases "answerResult s")
  case None
  with assms show ?thesis
    by (simp add: handleNext_def)
next
  case (Some res)
  with assms(1) have bound: "totalQuestions s = 3" "0 \<le> score s"
    "selectedIndex s \<noteq> None" "score s \<le> questionNumber s" "1 \<le> questionNumber s"
    "questionNumber s \<le> 3" "ar_gameOver res \<longleftrightarrow> 3 \<le> questionNumber s"
    by (simp_all add: mock_inv_def)
  show ?thesis
  proof (cases "loading s \<or> ar_gameOver res")
    case True
    with Some assms(1) show ?thesis
      by (auto simp add: handleNext_def mock_inv_def)
  next
    case False
    then have "\<not> loading s" "\<not> ar_gameOver res"
      by simp_all
    from handleNext_mock [OF assms(2) Some this] obtain q where
      "handleNext questionOut s =
         s\<lparr> error := '''', usingMockBackend := True, question := Some (shown_of q),
            totalQuestions := 3, questionNumber := clamp (questionNumber s + 1) 1 3,
            selectedIndex := None, answerResult := None, gameOver := False,
            loading := False \<rparr>"
      by blast
    with bound \<open>\<not> ar_gameOver res\<close> show ?thesis
      by (simp add: mock_inv_def clamp_def)
  qed
qed

lemma step_mock_inv: "mock_inv s \<Longrightarrow> mock_mode a \<Longrightarrow> mock_inv (step s a)"
  by (cases a)
     (simp_all add: handleStartGame_again_mock_inv handleSelectAnswer_mock_inv
        handleNext_mock_inv restart_mock_inv)

lemma run_mock_inv:
  "mock_inv s \<Longrightarrow> \<forall>a \<in> set acts. mock_mode a \<Longrightarrow> mock_inv (foldl step s acts)"
  by (induction acts arbitrary: s) (simp_all add: step_mock_inv)

lemma mock_inv_score: "mock_inv s \<Longrightarrow> score s \<le> totalQuestions s"
  by (auto simp add: mock_inv_def split: option.splits)

text \<open>
  C7, as stated: in mock mode, from a fresh start with score 0, the score never exceeds
  the total number of questions. Mock mode is the flag \<^verbatim>\<open>usingMockBackend\<close>, and
  the fallback is decided call by call. In the session below the start call meets a 404,
  which sets the flag, the question calls are answered by a live endpoint that keeps
  serving question 1 of 3 (no answer reaches it), and each submission meets a 404 and is
  graded by the mock: four correct answers give score 4 of 3.
\<close>

theorem mixed_session_counterexample:
  "usingMockBackend
     (handleStartGame (Inl not_found_error) (Inr (Some live_question)) initial_state)
   \<and> score (handleStartGame (Inl not_found_error) (Inr (Some live_question)) initial_state) = 0
   \<and> score (foldl step
        (handleStartGame (Inl not_found_error) (Inr (Some live_question)) initial_state)
        [Select 0 (Inl not_found_error), Next (Inr (Some live_question)),
         Select 0 (Inl not_found_error), Next (Inr (Some live_question)),
         Select 0 (Inl not_found_error), Next (Inr (Some live_question)),
         Select 0 (Inl not_found_error)]) = 4
   \<and> totalQuestions (foldl step
        (handleStartGame (Inl not_found_error) (Inr (Some live_question)) initial_state)
        [Select 0 (Inl not_found_error), Next (Inr (Some live_question)),
         Select 0 (Inl not_found_error), Next (Inr (Some live_question)),
         Select 0 (Inl not_found_error), Next (Inr (Some live_question)),
         Select 0 (Inl not_found_error)]) = 3"
  by code_simp

text \<open>
  C7, amended. In a session in which every get-question call and every submission fails
  with an endpoint-missing error, so that every question and every grading is the mock's,
  from a start that loads its question so (the start call itself answered or fallen back)
  and after any sequence of user actions (start, select, advance, restart), the mock-mode
  flag is set and the score does not exceed the total number of questions.
\<close>

theorem mock_score_bounded:
  assumes "startOut = Inr () \<or> falls_back startOut" and "falls_back questionOut"
    and "\<forall>a \<in> set acts. mock_mode a"
  shows "usingMockBackend (foldl step (handleStartGame startOut questionOut s0) acts)
       \<and> score (foldl step (handleStartGame startOut questionOut s0) acts)
           \<le> totalQuestions (foldl step (handleStartGame startOut questionOut s0) acts)"
proof
  from assms(1,2) have "usingMockBackend (handleStartGame startOut questionOut s0)"
    by (simp add: handleStartGame_mock [of startOut "()"])
  then show "usingMockBackend (foldl step (handleStartGame startOut questionOut s0) acts)"
    by (rule run_flag)
  from assms show "score (foldl step (handleStartGame startOut questionOut s0) acts)
           \<le> totalQuestions (foldl step (handleStartGame startOut questionOut s0) acts)"
    by (intro mock_inv_score run_mock_inv handleStartGame_mock_inv)
qed

lemma falls_back_not_found [simp]: "falls_back (Inl not_found_error)"
  by (simp add: falls_back_def looksLikeMissingEndpoint_def not_found_error_def)

theorem mock_score_bounded_witness:
  "falls_back (Inl not_found_error :: unit outcome)
   \<and> falls_back (Inl not_found_error :: question_response option outcome)
   \<and> list_all mock_mode
        [Select 0 (Inl not_found_error), Next (Inl not_found_error),
         Select 1 (Inl not_found_error), Next (Inl not_found_error),
         Select 2 (Inl not_found_error), Next (Inl not_found_error)]
   \<and> usingMockBackend (foldl step
        (handleStartGame (Inl not_found_error) (Inl not_found_error) initial_state)
        [Select 0 (Inl not_found_error), Next (Inl not_found_error),
         Select 1 (Inl not_found_error), Next (Inl not_found_error),
         Select 2 (Inl not_found_error), Next (Inl not_found_error)])
   \<and> score (foldl step
        (handleStartGame (Inl not_found_error) (Inl not_found_error) initial_state)
        [Select 0 (Inl not_found_error), Next (Inl not_found_error),
         Select 1 (Inl not_found_error), Next (Inl not_found_error),
         Select 2 (Inl not_found_error), Next (Inl not_found_error)])
     \<le> totalQuestions (foldl step
        (handleStartGame (Inl not_found_error) (Inl not_found_error) initial_state)
        [Select 0 (Inl not_found_error), Next (Inl not_found_error),
         Select 1 (Inl not_found_error), Next (Inl not_found_error),
         Select 2 (Inl not_found_error), Next (Inl not_found_error)])"
proof -
  have acts: "\<forall>a \<in> set [Select 0 (Inl not_found_error), Next (Inl not_found_error),
                   Select 1 (Inl not_found_error), Next (Inl not_found_error),
                   Select 2 (Inl not_found_error), Next (Inl not_found_error)]. mock_mode a"
    by simp
  have start: "Inl not_found_error = Inr () \<or> falls_back (Inl not_found_error :: unit outcome)"
    by simp
  show ?thesis
    using acts
      mock_score_bounded [OF start falls_back_not_found acts, of initial_state]
    by simp
qed

text \<open>The bound is reached by the session that answers all three questions correctly.\<close>

lemma mock_score_reaches_total:
  "score (foldl step mock_started
        [Select 0 (Inl not_found_error), Next (Inl not_found_error),
         Select 1 (Inl not_found_error), Next (Inl not_found_error),
         Select 2 (Inl not_found_error), Next (Inl not_found_error)]) = 3"
  by code_simp

section \<open>Mock mode over a session\<close>

text \<open>
  C4, as stated: after one get-current-question call has failed with 404, every later
  gameplay operation of the session is answered by the mock and surfaces no error. The
  flag \<^verbatim>\<open>usingMockBackend\<close> is only displayed: \<^verbatim>\<open>tryBackendOrMock\<close> calls the
  real API first every time. In the session whose start met the 404, a submission that
  meets a 500 is not answered by the mock, and its error is shown.
\<close>

theorem mock_mode_counterexample:
  "usingMockBackend mock_started
   \<and> error (handleSelectAnswer 1 (Inl server_error) mock_started) = ''Internal Server Error''
   \<and> answerResult (handleSelectAnswer 1 (Inl server_error) mock_started) = None"
  by code_simp

text \<open>
  C4, amended. Let a get-current-question call fail with HTTP 404, in a start (whose start
  call was answered or fell back) or in an advance. That call is answered by the mock, no
  error is shown, and the mock-mode flag is set and stays set over every later action.
  Each later operation still calls the real API first. When its call fails with an
  endpoint-missing error, a submission, an advance and a start alike are answered by the
  mock with no error shown. When it fails with any other error, the mock does not answer:
  the error's message (or the handler's fallback text) is shown, a submission records no
  result and an advance keeps the question.
\<close>

theorem fallback_per_call:
  assumes "err_status e = Some 404"
    and "a = Start startOut (Inl e) \<and> (startOut = Inr () \<or> falls_back startOut)
       \<or> a = Next (Inl e) \<and> (\<exists>res. answerResult s = Some res \<and> \<not> ar_gameOver res)
           \<and> \<not> loading s"
  shows "error (step s a) = ''''
       \<and> usingMockBackend (step s a)
       \<and> (\<exists>q. mockGetQuestion (case a of Next _ \<Rightarrow> questionNumber s + 1 | _ \<Rightarrow> 1) = Inr q
              \<and> question (step s a) = Some (shown_of q))
       \<and> (let t = foldl step (step s a) acts
          in usingMockBackend t
           \<and> (falls_back answerOut \<and> \<not> select_ignored t \<longrightarrow>
                error (handleSelectAnswer idx answerOut t) = ''''
              \<and> answerResult (handleSelectAnswer idx answerOut t)
                  = Some (normalize_answer t
                            (mockSubmitAnswer t (q_id (the (question t))) idx)))
           \<and> (falls_back laterOut \<and> answerResult t = Some res' \<and> \<not> loading t
                \<and> \<not> ar_gameOver res' \<longrightarrow>
                error (handleNext laterOut t) = ''''
              \<and> (\<exists>q. mockGetQuestion (questionNumber t + 1) = Inr q
                     \<and> question (handleNext laterOut t) = Some (shown_of q)))
           \<and> (falls_back laterOut \<and> (startOut' = Inr () \<or> falls_back startOut') \<longrightarrow>
                error (handleStartGame startOut' laterOut t) = ''''
              \<and> (\<exists>q. mockGetQuestion 1 = Inr q
                     \<and> question (handleStartGame startOut' laterOut t) = Some (shown_of q)))
           \<and> (\<not> looksLikeMissingEndpoint e' \<longrightarrow>
                (\<not> select_ignored t \<longrightarrow>
                   error (handleSelectAnswer idx (Inl e') t)
                     = message_or e' ''Unable to submit answer''
                 \<and> answerResult (handleSelectAnswer idx (Inl e') t) = answerResult t)
              \<and> (answerResult t = Some res' \<and> \<not> loading t \<and> \<not> ar_gameOver res' \<longrightarrow>
                   error (handleNext (Inl e') t) = message_or e' ''Unable to load next question''
                 \<and> question (handleNext (Inl e') t) = question t)
              \<and> error (handleStartGame (Inl e') laterOut t)
                   = message_or e' ''Unable to start game''))"
proof -
  from assms(1) have fb: "falls_back (Inl e :: question_response option outcome)"
    by (simp add: falls_back_def looksLikeMissingEndpoint_def)
  let ?answered = "error (step s a) = '''' \<and> usingMockBackend (step s a)
       \<and> (\<exists>q. mockGetQuestion (case a of Next _ \<Rightarrow> questionNumber s + 1 | _ \<Rightarrow> 1) = Inr q
              \<and> question (step s a) = Some (shown_of q))"
  from assms(2) consider
      (start) "a = Start startOut (Inl e)" "startOut = Inr () \<or> falls_back startOut"
    | (advance) res where "a = Next (Inl e)" "answerResult s = Some res"
        "\<not> ar_gameOver res" "\<not> loading s"
    by blast
  then have trigger: ?answered
  proof cases
    case start
    from mockGetQuestion_first obtain q where "mockGetQuestion 1 = Inr q"
      "shown_of q = \<lparr> q_id = ''q1'', q_prompt = mq_prompt mock_q1,
                      q_choices = mq_choices mock_q1 \<rparr>"
      by blast
    with start(1) show ?thesis
      by (simp add: handleStartGame_mock [OF start(2) fb])
  next
    case (advance res)
    from handleNext_mock [OF fb advance(2) advance(4) advance(3)] obtain q where
      "mockGetQuestion (questionNumber s + 1) = Inr q"
      "handleNext (Inl e) s =
         s\<lparr> error := '''', usingMockBackend := True, question := Some (shown_of q),
            totalQuestions := 3, questionNumber := clamp (questionNumber s + 1) 1 3,
            selectedIndex := None, answerResult := None, gameOver := False,
            loading := False \<rparr>"
      by blast
    with advance(1) show ?thesis
      by simp
  qed
  define t where "t = foldl step (step s a) acts"
  from trigger have flag: "usingMockBackend t"
    unfolding t_def by (intro run_flag) simp
  have sel: "falls_back answerOut \<and> \<not> select_ignored t \<longrightarrow>
        error (handleSelectAnswer idx answerOut t) = ''''
      \<and> answerResult (handleSelectAnswer idx answerOut t)
          = Some (normalize_answer t (mockSubmitAnswer t (q_id (the (question t))) idx))"
    by (simp add: handleSelectAnswer_mock)
  have nxt: "falls_back laterOut \<and> answerResult t = Some res' \<and> \<not> loading t
        \<and> \<not> ar_gameOver res' \<longrightarrow>
        error (handleNext laterOut t) = ''''
      \<and> (\<exists>q. mockGetQuestion (questionNumber t + 1) = Inr q
             \<and> question (handleNext laterOut t) = Some (shown_of q))"
  proof (intro impI, elim conjE)
    assume n: "falls_back laterOut" "answerResult t = Some res'" "\<not> loading t"
      "\<not> ar_gameOver res'"
    from handleNext_mock [OF n] obtain q where
      q: "mockGetQuestion (questionNumber t + 1) = Inr q"
      and h: "handleNext laterOut t =
         t\<lparr> error := '''', usingMockBackend := True, question := Some (shown_of q),
            totalQuestions := 3, questionNumber := clamp (questionNumber t + 1) 1 3,
            selectedIndex := None, answerResult := None, gameOver := False,
            loading := False \<rparr>"
      by blast
    from q show "error (handleNext laterOut t) = ''''
      \<and> (\<exists>q. mockGetQuestion (questionNumber t + 1) = Inr q
             \<and> question (handleNext laterOut t) = Some (shown_of q))"
      by (simp add: h)
  qed
  have start: "falls_back laterOut \<and> (startOut' = Inr () \<or> falls_back startOut') \<longrightarrow>
        error (handleStartGame startOut' laterOut t) = ''''
      \<and> (\<exists>q. mockGetQuestion 1 = Inr q
             \<and> question (handleStartGame startOut' laterOut t) = Some (shown_of q))"
  proof (intro impI, elim conjE)
    assume l: "falls_back laterOut" and st: "startOut' = Inr () \<or> falls_back startOut'"
    from mockGetQuestion_first obtain q where "mockGetQuestion 1 = Inr q"
      "shown_of q = \<lparr> q_id = ''q1'', q_prompt = mq_prompt mock_q1,
                      q_choices = mq_choices mock_q1 \<rparr>"
      by blast
    then show "error (handleStartGame startOut' laterOut t) = ''''
      \<and> (\<exists>q. mockGetQuestion 1 = Inr q
             \<and> question (handleStartGame startOut' laterOut t) = Some (shown_of q))"
      by (simp add: handleStartGame_mock [OF st l])
  qed
  have other: "\<not> looksLikeMissingEndpoint e' \<longrightarrow>
        (\<not> select_ignored t \<longrightarrow>
           error (handleSelectAnswer idx (Inl e') t) = message_or e' ''Unable to submit answer''
         \<and> answerResult (handleSelectAnswer idx (Inl e') t) = answerResult t)
      \<and> (answerResult t = Some res' \<and> \<not> loading t \<and> \<not> ar_gameOver res' \<longrightarrow>
           error (handleNext (Inl e') t) = message_or e' ''Unable to load next question''
         \<and> question (handleNext (Inl e') t) = question t)
      \<and> error (handleStartGame (Inl e') laterOut t) = message_or e' ''Unable to start game''"
    by (simp add: handleSelectAnswer_error handleNext_error handleStartGame_start_error)
  from trigger flag sel nxt start other show ?thesis
    unfolding Let_def t_def [symmetric]
    by blast
qed

theorem fallback_per_call_witness:
  "err_status not_found_error = Some 404
   \<and> error (step initial_state (Start (Inr ()) (Inl not_found_error))) = ''''
   \<and> usingMockBackend (step initial_state (Start (Inr ()) (Inl not_found_error)))
   \<and> usingMockBackend
        (foldl step (step initial_state (Start (Inr ()) (Inl not_found_error)))
           [Select 1 (Inl server_error), Restart])
   \<and> \<not> select_ignored (step initial_state (Start (Inr ()) (Inl not_found_error)))
   \<and> error (handleSelectAnswer 1 (Inl not_found_error)
              (step initial_state (Start (Inr ()) (Inl not_found_error)))) = ''''
   \<and> \<not> looksLikeMissingEndpoint server_error
   \<and> error (handleSelectAnswer 1 (Inl server_error)
              (step initial_state (Start (Inr ()) (Inl not_found_error))))
       = ''Internal Server Error''"
proof -
  have status: "err_status not_found_error = Some 404"
    by (simp add: not_found_error_def)
  have trigger:
    "Start (Inr ()) (Inl not_found_error) = Start (Inr ()) (Inl not_found_error)
       \<and> (Inr () = (Inr () :: unit outcome) \<or> falls_back (Inr () :: unit outcome))
     \<or> Start (Inr ()) (Inl not_found_error) = Next (Inl not_found_error)
       \<and> (\<exists>res. answerResult initial_state = Some res \<and> \<not> ar_gameOver res)
       \<and> \<not> loading initial_state"
    by simp
  have facts: "\<not> select_ignored (step initial_state (Start (Inr ()) (Inl not_found_error)))"
    "\<not> looksLikeMissingEndpoint server_error"
    by code_simp+
  have msg: "message_or server_error ''Unable to submit answer'' = ''Internal Server Error''"
    by (simp add: message_or_def server_error_def)
  show ?thesis
    using status facts msg
      fallback_per_call [OF status trigger,
        where acts = "[Select 1 (Inl server_error), Restart]"]
      fallback_per_call [OF status trigger, where acts = "[]"
        and answerOut = "Inl not_found_error" and idx = 1 and e' = server_error]
    by (simp add: Let_def)
qed

section \<open>Locking of the selected answer\<close>

text \<open>
  C5, as stated: once a choice index is stored for the question on screen, it is neither
  changed nor cleared until a new question is loaded. The \<^verbatim>\<open>catch\<close> block of
  \<^verbatim>\<open>handleSelectAnswer\<close> clears it: in the session started against missing endpoints,
  selecting choice 1 stores the index while the request is in flight, and when the request
  fails with a 500 the index is cleared although the question on screen is the same.
\<close>

theorem selection_cleared_counterexample:
  "selectedIndex (handleSelectAnswer_begin 1 mock_started) = Some 1
   \<and> question (handleSelectAnswer_begin 1 mock_started) \<noteq> None
   \<and> selectedIndex (handleSelectAnswer_resume mock_started 1 (Inl server_error)
                      (handleSelectAnswer_begin 1 mock_started)) = None
   \<and> question (handleSelectAnswer_resume mock_started 1 (Inl server_error)
                 (handleSelectAnswer_begin 1 mock_started))
       = question (handleSelectAnswer_begin 1 mock_started)"
  by code_simp

lemma handleSelectAnswer_locked:
  "selectedIndex s = Some i \<Longrightarrow> handleSelectAnswer j answerOut s = s"
  by (simp add: handleSelectAnswer_def select_ignored_def)

text \<open>
  An advance leaves the selection and the question alone, or clears the selection and
  shows the question its call was answered with, by the real API or by the mock.
\<close>

lemma handleNext_selection:
  "selectedIndex (handleNext questionOut s) = selectedIndex s
     \<and> question (handleNext questionOut s) = question s
   \<or> (\<exists>q. (questionOut = Inr (Some q)
            \<or> falls_back questionOut \<and> mockGetQuestion (questionNumber s + 1) = Inr q)
          \<and> selectedIndex (handleNext questionOut s) = None
          \<and> question (handleNext questionOut s) = Some (shown_of q))"
proof (cases "\<exists>res. answerResult s = Some res \<and> \<not> loading s \<and> \<not> ar_gameOver res")
  case False
  then show ?thesis
    by (auto simp add: handleNext_def split: option.splits)
next
  case True
  then obtain res where guard: "answerResult s = Some res" "\<not> loading s" "\<not> ar_gameOver res"
    by blast
  show ?thesis
  proof (cases questionOut)
    case (Inr body)
    with guard show ?thesis
      by (cases body) (auto simp add: handleNext_def tryBackendOrMock_answered Let_def)
  next
    case (Inl e)
    show ?thesis
    proof (cases "looksLikeMissingEndpoint e")
      case True
      with Inl have fb: "falls_back questionOut"
        by (simp add: falls_back_def)
      from handleNext_mock [OF fb guard] fb show ?thesis
        by auto
    next
      case False
      with Inl guard show ?thesis
        by (simp add: handleNext_error)
    qed
  qed
qed

text \<open>
  A start does the same; when its start call falls back, \<^verbatim>\<open>mockStart\<close> has already
  shown the mock's first question, whatever the question call then comes to.
\<close>

lemma handleStartGame_selection:
  "selectedIndex (handleStartGame startOut questionOut s) = selectedIndex s
     \<and> question (handleStartGame startOut questionOut s) = question s
   \<or> (\<exists>q. (questionOut = Inr (Some q)
            \<or> (falls_back questionOut \<or> falls_back startOut) \<and> mockGetQuestion 1 = Inr q)
          \<and> selectedIndex (handleStartGame startOut questionOut s) = None
          \<and> question (handleStartGame startOut questionOut s) = Some (shown_of q))"
proof -
  from mockGetQuestion_first obtain m where m: "mockGetQuestion 1 = Inr m"
    "shown_of m = \<lparr> q_id = ''q1'', q_prompt = mq_prompt mock_q1,
                    q_choices = mq_choices mock_q1 \<rparr>"
    by blast
  show ?thesis
  proof (cases "falls_back questionOut")
    case True
    show ?thesis
    proof (cases startOut)
      case (Inr u)
      then have "startOut = Inr u \<or> falls_back startOut"
        by simp
      from handleStartGame_mock [OF this True] True m show ?thesis
        by auto
    next
      case (Inl e)
      show ?thesis
      proof (cases "looksLikeMissingEndpoint e")
        case fb: True
        with Inl have "startOut = Inr () \<or> falls_back startOut"
          by (simp add: falls_back_def)
        from handleStartGame_mock [OF this True] True m show ?thesis
          by auto
      next
        case False
        with Inl show ?thesis
          by (simp add: handleStartGame_start_error)
      qed
    qed
  next
    case False
    with m show ?thesis
      by (cases startOut; cases questionOut)
         (auto simp add: handleStartGame_def tryBackendOrMock_def mockStart_def Let_def
            length_MOCK_QUESTIONS falls_back_def split: option.splits)
  qed
qed

lemma handleSelectAnswer_resume_failed:
  assumes "question s \<noteq> None"
    and "(\<exists>e. answerOut = Inl e \<and> \<not> looksLikeMissingEndpoint e) \<or> answerOut = Inr None"
  shows "selectedIndex (handleSelectAnswer_resume s idx answerOut p) = None
       \<and> question (handleSelectAnswer_resume s idx answerOut p) = question p"
  using assms
  by (auto simp add: handleSelectAnswer_resume_def tryBackendOrMock_def Let_def)

lemma handleSelectAnswer_resume_recorded:
  assumes "question s \<noteq> None"
    and "falls_back answerOut \<or> (\<exists>r. answerOut = Inr (Some r))"
  shows "selectedIndex (handleSelectAnswer_resume s idx answerOut p) = selectedIndex p
       \<and> question (handleSelectAnswer_resume s idx answerOut p) = question p"
  using assms
  by (auto simp add: handleSelectAnswer_resume_def tryBackendOrMock_falls_back
        tryBackendOrMock_answered Let_def)

text \<open>
  C5, amended. While a choice index is stored, a further selection is ignored, and every
  other user action either leaves the stored index and the question as they are, or clears
  the index together with showing the question its call was answered with (advance, start;
  by the real API or by the mock) or with removing the question (restart). The handler that
  stores the index keeps it when the submission is answered, by the real API or by the
  mock, and clears it again, the question unchanged, when the submission fails with an
  error that is not endpoint-missing or comes back empty.
\<close>

theorem selection_locked:
  assumes "selectedIndex s = Some i"
  shows "handleSelectAnswer j answerOut s = s
       \<and> (selectedIndex (handleNext questionOut s) = Some i
            \<and> question (handleNext questionOut s) = question s
          \<or> (\<exists>q. (questionOut = Inr (Some q)
                   \<or> falls_back questionOut
                     \<and> mockGetQuestion (questionNumber s + 1) = Inr q)
                 \<and> selectedIndex (handleNext questionOut s) = None
                 \<and> question (handleNext questionOut s) = Some (shown_of q)))
       \<and> (selectedIndex (handleStartGame startOut questionOut s) = Some i
            \<and> question (handleStartGame startOut questionOut s) = question s
          \<or> (\<exists>q. (questionOut = Inr (Some q)
                   \<or> (falls_back questionOut \<or> falls_back startOut)
                     \<and> mockGetQuestion 1 = Inr q)
                 \<and> selectedIndex (handleStartGame startOut questionOut s) = None
                 \<and> question (handleStartGame startOut questionOut s) = Some (shown_of q)))
       \<and> selectedIndex (restart s) = None \<and> question (restart s) = None
       \<and> (\<not> select_ignored s0 \<longrightarrow>
            selectedIndex (handleSelectAnswer_begin idx s0) = Some idx
          \<and> question (handleSelectAnswer_begin idx s0) = question s0
          \<and> ((\<exists>e. submitOut = Inl e \<and> \<not> looksLikeMissingEndpoint e) \<or> submitOut = Inr None
              \<longrightarrow>
                selectedIndex (handleSelectAnswer_resume s0 idx submitOut
                                 (handleSelectAnswer_begin idx s0)) = None
              \<and> question (handleSelectAnswer_resume s0 idx submitOut
                            (handleSelectAnswer_begin idx s0)) = question s0)
          \<and> (falls_back submitOut \<or> (\<exists>r. submitOut = Inr (Some r)) \<longrightarrow>
                selectedIndex (handleSelectAnswer_resume s0 idx submitOut
                                 (handleSelectAnswer_begin idx s0)) = Some idx
              \<and> question (handleSelectAnswer_resume s0 idx submitOut
                            (handleSelectAnswer_begin idx s0)) = question s0))"
proof -
  have sel: "handleSelectAnswer j answerOut s = s"
    using assms by (rule handleSelectAnswer_locked)
  have adv: "selectedIndex (handleNext questionOut s) = Some i
            \<and> question (handleNext questionOut s) = question s
          \<or> (\<exists>q. (questionOut = Inr (Some q)
                   \<or> falls_back questionOut
                     \<and> mockGetQuestion (questionNumber s + 1) = Inr q)
                 \<and> selectedIndex (handleNext questionOut s) = None
                 \<and> question (handleNext questionOut s) = Some (shown_of q))"
    using handleNext_selection [of questionOut s] assms by simp
  have start: "selectedIndex (handleStartGame startOut questionOut s) = Some i
            \<and> question (handleStartGame startOut questionOut s) = question s
          \<or> (\<exists>q. (questionOut = Inr (Some q)
                   \<or> (falls_back questionOut \<or> falls_back startOut)
                     \<and> mockGetQuestion 1 = Inr q)
                 \<and> selectedIndex (handleStartGame startOut questionOut s) = None
                 \<and> question (handleStartGame startOut questionOut s) = Some (shown_of q))"
    using handleStartGame_selection [of startOut questionOut s] assms by simp
  have rst: "selectedIndex (restart s) = None" "question (restart s) = None"
    by (simp_all add: restart_def)
  have flight: "\<not> select_ignored s0 \<longrightarrow>
            selectedIndex (handleSelectAnswer_begin idx s0) = Some idx
          \<and> question (handleSelectAnswer_begin idx s0) = question s0
          \<and> ((\<exists>e. submitOut = Inl e \<and> \<not> looksLikeMissingEndpoint e) \<or> submitOut = Inr None
              \<longrightarrow>
                selectedIndex (handleSelectAnswer_resume s0 idx submitOut
                                 (handleSelectAnswer_begin idx s0)) = None
              \<and> question (handleSelectAnswer_resume s0 idx submitOut
                            (handleSelectAnswer_begin idx s0)) = question s0)
          \<and> (falls_back submitOut \<or> (\<exists>r. submitOut = Inr (Some r)) \<longrightarrow>
                selectedIndex (handleSelectAnswer_resume s0 idx submitOut
                                 (handleSelectAnswer_begin idx s0)) = Some idx
              \<and> question (handleSelectAnswer_resume s0 idx submitOut
                            (handleSelectAnswer_begin idx s0)) = question s0)"
  proof
    assume open_: "\<not> select_ignored s0"
    then have q: "question s0 \<noteq> None"
      by (simp add: select_ignored_def)
    from open_ have b: "selectedIndex (handleSelectAnswer_begin idx s0) = Some idx"
      "question (handleSelectAnswer_begin idx s0) = question s0"
      by (simp_all add: handleSelectAnswer_begin_def)
    from b handleSelectAnswer_resume_failed [OF q, of submitOut idx
          "handleSelectAnswer_begin idx s0"]
      handleSelectAnswer_resume_recorded [OF q, of submitOut idx
          "handleSelectAnswer_begin idx s0"]
    show "selectedIndex (handleSelectAnswer_begin idx s0) = Some idx
          \<and> question (handleSelectAnswer_begin idx s0) = question s0
          \<and> ((\<exists>e. submitOut = Inl e \<and> \<not> looksLikeMissingEndpoint e) \<or> submitOut = Inr None
              \<longrightarrow>
                selectedIndex (handleSelectAnswer_resume s0 idx submitOut
                                 (handleSelectAnswer_begin idx s0)) = None
              \<and> question (handleSelectAnswer_resume s0 idx submitOut
                            (handleSelectAnswer_begin idx s0)) = question s0)
          \<and> (falls_back submitOut \<or> (\<exists>r. submitOut = Inr (Some r)) \<longrightarrow>
                selectedIndex (handleSelectAnswer_resume s0 idx submitOut
                                 (handleSelectAnswer_begin idx s0)) = Some idx
              \<and> question (handleSelectAnswer_resume s0 idx submitOut
                            (handleSelectAnswer_begin idx s0)) = question s0)"
      by simp
  qed
  from sel adv start rst flight show ?thesis
    by blast
qed

theorem selection_locked_witness:
  "selectedIndex (handleSelectAnswer 1 (Inl not_found_error) mock_started) = Some 1
   \<and> handleSelectAnswer 2 (Inl not_found_error)
        (handleSelectAnswer 1 (Inl not_found_error) mock_started)
       = handleSelectAnswer 1 (Inl not_found_error) mock_started
   \<and> selectedIndex (restart (handleSelectAnswer 1 (Inl not_found_error) mock_started)) = None
   \<and> \<not> select_ignored mock_started
   \<and> \<not> looksLikeMissingEndpoint server_error
   \<and> selectedIndex (handleSelectAnswer_begin 1 mock_started) = Some 1
   \<and> selectedIndex (handleSelectAnswer_resume mock_started 1 (Inl server_error)
                      (handleSelectAnswer_begin 1 mock_started)) = None
   \<and> selectedIndex (handleSelectAnswer_resume mock_started 1 (Inl not_found_error)
                      (handleSelectAnswer_begin 1 mock_started)) = Some 1"
proof -
  have sel: "selectedIndex (handleSelectAnswer 1 (Inl not_found_error) mock_started) = Some 1"
    by code_simp
  have facts: "\<not> select_ignored mock_started" "\<not> looksLikeMissingEndpoint server_error"
    by code_simp+
  show ?thesis
    using sel facts
      selection_locked [OF sel, where j = 2 and answerOut = "Inl not_found_error"
        and ?s0.0 = mock_started and idx = 1 and submitOut = "Inl server_error"]
      selection_locked [OF sel, where ?s0.0 = mock_started and idx = 1
        and submitOut = "Inl not_found_error"]
    by simp
qed

end
